theory Spec2Isabelle
  imports Complex_Main
begin

section \<open>Python values\<close>

text \<open>
  The program (\<^verbatim>\<open>app.py\<close>) works on values decoded by \<^verbatim>\<open>json.loads\<close> and on
  dictionaries it builds from them. A \<open>json\<close> is such a value. A \<open>char\<close> of a \<open>string\<close>
  stands for one character of a Python \<^verbatim>\<open>str\<close>, so that \<open>length\<close> is \<^verbatim>\<open>len\<close> and \<open>take n\<close>
  is the slice \<^verbatim>\<open>[:n]\<close>. A dictionary is an association list read with \<open>map_of\<close>.
  The non-finite floats that \<^verbatim>\<open>json.loads\<close> accepts (\<^verbatim>\<open>NaN\<close>, \<^verbatim>\<open>Infinity\<close>) are left out.
\<close>

datatype json =
    JNull
  | JBool bool
  | JInt int
  | JFloat rat
  | JStr string
  | JList "json list"
  | JDict "(string \<times> json) list"

text \<open>
  Exceptions, each with the text of \<^verbatim>\<open>str(e)\<close>. \<open>ClientError\<close> is any exception of a
  library call that is not one of the others. The two handlers of the program tell
  \<^verbatim>\<open>json.JSONDecodeError\<close> from every other \<^verbatim>\<open>Exception\<close>.
\<close>

datatype exn =
    JSONDecodeError string
  | AttributeError string
  | TypeError string
  | ZeroDivisionError string
  | ClientError string

fun str_exn :: "exn \<Rightarrow> string" where
  "str_exn (JSONDecodeError m) = m"
| "str_exn (AttributeError m) = m"
| "str_exn (TypeError m) = m"
| "str_exn (ZeroDivisionError m) = m"
| "str_exn (ClientError m) = m"

fun is_JSONDecodeError :: "exn \<Rightarrow> bool" where
  "is_JSONDecodeError (JSONDecodeError m) = True"
| "is_JSONDecodeError e = False"

text \<open>Truth value of a value in a condition (\<^verbatim>\<open>if x:\<close>).\<close>

fun truthy :: "json \<Rightarrow> bool" where
  "truthy JNull = False"
| "truthy (JBool b) = b"
| "truthy (JInt i) = (i \<noteq> 0)"
| "truthy (JFloat r) = (r \<noteq> 0)"
| "truthy (JStr s) = (s \<noteq> [])"
| "truthy (JList xs) = (xs \<noteq> [])"
| "truthy (JDict kvs) = (kvs \<noteq> [])"

text \<open>
  \<^verbatim>\<open>x.get(k, dflt)\<close>: only a dictionary has the method; on any other value the
  attribute lookup raises \<^verbatim>\<open>AttributeError\<close>. The wording of the messages of the
  interpreter's own exceptions differs between versions; nothing below depends on it.
\<close>

fun py_get :: "json \<Rightarrow> string \<Rightarrow> json \<Rightarrow> exn + json" where
  "py_get (JDict kvs) k dflt = Inr (case map_of kvs k of None \<Rightarrow> dflt | Some v \<Rightarrow> v)"
| "py_get v k dflt = Inl (AttributeError ''object has no attribute get'')"

text \<open>
  The slice \<^verbatim>\<open>x[:n]\<close>: a prefix of a string or of a list. Every other value raises
  (\<^verbatim>\<open>TypeError\<close>: not subscriptable; for a dictionary \<^verbatim>\<open>TypeError\<close> or, from
  Python 3.12, \<^verbatim>\<open>KeyError\<close>, either of which the handlers treat alike).
\<close>

fun py_slice_to :: "json \<Rightarrow> nat \<Rightarrow> exn + json" where
  "py_slice_to (JStr s) n = Inr (JStr (take n s))"
| "py_slice_to (JList xs) n = Inr (JList (take n xs))"
| "py_slice_to v n = Inl (TypeError ''object is not subscriptable'')"

text \<open>
  The elements a \<^verbatim>\<open>for\<close> loop sees in the result of a slice: the elements of a list,
  the one-character strings of a string.
\<close>

fun py_iter :: "json \<Rightarrow> json list" where
  "py_iter (JList xs) = xs"
| "py_iter (JStr s) = map (\<lambda>c. JStr [c]) s"
| "py_iter v = []"

text \<open>
  A value used as a dictionary key: lists and dictionaries are unhashable
  (\<^verbatim>\<open>TypeError\<close>); \<^verbatim>\<open>True\<close>, \<^verbatim>\<open>1\<close> and \<^verbatim>\<open>1.0\<close> are one key.
\<close>

fun py_key :: "json \<Rightarrow> exn + json" where
  "py_key (JList xs) = Inl (TypeError ''unhashable type: list'')"
| "py_key (JDict kvs) = Inl (TypeError ''unhashable type: dict'')"
| "py_key (JBool b) = Inr (JInt (if b then 1 else 0))"
| "py_key (JFloat r) = Inr (if of_int \<lfloor>r\<rfloor> = r then JInt \<lfloor>r\<rfloor> else JFloat r)"
| "py_key v = Inr v"

section \<open>The external services and what the run shows\<close>

text \<open>
  An f-string is modelled by the name of its template and the values it formats, so the
  prompts and the messages of the interface are constructors that carry those values.
  An evidence block is one \<^verbatim>\<open>Source i\<close> paragraph of the verification prompt.
\<close>

record source =
  index :: nat
  title :: json
  content :: json
  url :: json

text \<open>
  \<open>VerificationPrompt claim_text claim_type search_context\<close>: the empty context is
  rendered as \<^verbatim>\<open>No search results found.\<close> (every block adds text, so the string
  \<^verbatim>\<open>search_context\<close> is empty exactly when no block was added).
\<close>

datatype prompt =
    ExtractionPrompt string
  | VerificationPrompt json json "source list"

record llm_request =
  model :: string
  system_content :: string
  user_content :: prompt
  temperature :: rat
  response_format :: string

text \<open>
  What \<^verbatim>\<open>openai_client.chat.completions.create\<close> does with a request: it raises (or
  reading the content of the first choice of its answer does), or it answers with a
  message content, given by what \<^verbatim>\<open>json.loads\<close> makes of that content (the decoded
  value, or the exception \<^verbatim>\<open>json.loads\<close> raises).
\<close>

datatype completion = CreateRaises exn | Content "exn + json"

type_synonym openai = "llm_request \<Rightarrow> completion"

record search_request =
  query :: string
  search_depth :: string
  max_results :: nat

datatype search_reply = SearchRaises exn | SearchResponse json

type_synonym tavily = "search_request \<Rightarrow> search_reply"

datatype message =
    ErrorExtractingText string
  | DocumentIsLarge nat
  | ErrorParsingJson string
  | ErrorExtractingClaims string
  | ErrorSearchingWeb string
  | ErrorParsingVerification json
  | ErrorVerifyingClaim json string
  | CouldNotExtractText
  | ExtractedCharacters nat
  | NoVerifiableClaims
  | FoundClaims nat
  | ClaimPreview nat json
  | ClaimType json

text \<open>
  The trace of a run: the notices of the interface (\<^verbatim>\<open>st.info\<close>, \<^verbatim>\<open>st.error\<close>,
  \<^verbatim>\<open>st.warning\<close>, \<^verbatim>\<open>st.success\<close>, the preview lines), and the requests sent to the two
  services. Spinners, the progress bar and the status line only draw and are left out.
\<close>

datatype event =
    StInfo message
  | StError message
  | StWarning message
  | StSuccess message
  | StMarkdown message
  | StCaption message
  | ChatCompletion llm_request
  | TavilySearch search_request

section \<open>Text source\<close>

text \<open>
  A page of the document by what \<^verbatim>\<open>page.extract_text()\<close> does: it returns a string or
  \<^verbatim>\<open>None\<close>, or raises. A document that \<^verbatim>\<open>pdfplumber.open\<close> cannot open raises there.
\<close>

datatype page = ExtractText "string option" | ExtractRaises exn

datatype pdf_file = OpenRaises exn | Pages "page list"

fun read_pages :: "string \<Rightarrow> page list \<Rightarrow> exn + string" where
  "read_pages text [] = Inr text"
| "read_pages text (ExtractRaises e # pages) = Inl e"
| "read_pages text (ExtractText None # pages) = read_pages text pages"
| "read_pages text (ExtractText (Some page_text) # pages) =
     (if page_text \<noteq> [] then read_pages (text @ page_text @ [CHR 0x0A]) pages
      else read_pages text pages)"

definition extract_text_from_pdf :: "pdf_file \<Rightarrow> string \<times> event list" where
  "extract_text_from_pdf pdf_file =
     (case pdf_file of
        OpenRaises e \<Rightarrow> ([], [StError (ErrorExtractingText (str_exn e))])
      | Pages pages \<Rightarrow>
          (case read_pages [] pages of
             Inl e \<Rightarrow> ([], [StError (ErrorExtractingText (str_exn e))])
           | Inr text \<Rightarrow> (text, [])))"

section \<open>Claim extractor\<close>

definition extraction_request :: "string \<Rightarrow> llm_request" where
  "extraction_request text_to_analyze =
     \<lparr>model = ''gpt-4o-mini'',
      system_content = ''You are a fact-checking assistant. Extract verifiable claims from text and return them as JSON with a 'claims' array.'',
      user_content = ExtractionPrompt text_to_analyze,
      temperature = 3 / 10,
      response_format = ''json_object''\<rparr>"

definition max_text_length :: nat where
  "max_text_length = 8000"

definition text_to_analyze :: "string \<Rightarrow> string" where
  "text_to_analyze text =
     (if length text > max_text_length then take max_text_length text else text)"

definition truncation_notice :: "string \<Rightarrow> event list" where
  "truncation_notice text =
     (if length text > max_text_length then [StInfo (DocumentIsLarge max_text_length)] else [])"

text \<open>Lines 100 to 108: the claims array of a decoded response.\<close>

definition claims_of_result :: "json \<Rightarrow> json list" where
  "claims_of_result result =
     (let claims =
        (case result of
           JDict kvs \<Rightarrow> (case map_of kvs ''claims'' of Some c \<Rightarrow> c | None \<Rightarrow> JList [])
         | JList xs \<Rightarrow> JList xs
         | _ \<Rightarrow> JList [])
      in case claims of JList cs \<Rightarrow> cs | _ \<Rightarrow> [])"

definition extract_claims_except :: "exn \<Rightarrow> event" where
  "extract_claims_except e =
     (if is_JSONDecodeError e then StError (ErrorParsingJson (str_exn e))
      else StError (ErrorExtractingClaims (str_exn e)))"

definition extract_claims :: "string \<Rightarrow> openai \<Rightarrow> json list \<times> event list" where
  "extract_claims text openai_client =
     (let request = extraction_request (text_to_analyze text);
          sent = truncation_notice text @ [ChatCompletion request]
      in case openai_client request of
           CreateRaises e \<Rightarrow> ([], sent @ [extract_claims_except e])
         | Content (Inl e) \<Rightarrow> ([], sent @ [extract_claims_except e])
         | Content (Inr result) \<Rightarrow> (claims_of_result result, sent))"

section \<open>Evidence retriever\<close>

text \<open>
  \<open>py_str\<close> is Python's \<^verbatim>\<open>str()\<close> on a value, which the f-string of the query applies
  to the claim. It is a parameter of the model: a string formats to itself, and the
  rendering of any other value is Python's own.
\<close>

definition search_request_of :: "string \<Rightarrow> search_request" where
  "search_request_of search_query =
     \<lparr>query = search_query, search_depth = ''advanced'', max_results = 5\<rparr>"

definition search_web_for_claim ::
  "(json \<Rightarrow> string) \<Rightarrow> json \<Rightarrow> json \<Rightarrow> tavily \<Rightarrow> json \<times> event list" where
  "search_web_for_claim py_str claim claim_type tavily_client =
     (let search_query = py_str claim;
          request = search_request_of search_query;
          failed = (\<lambda>e. (JDict [(''results'', JList []), (''query'', claim)],
                          [TavilySearch request, StError (ErrorSearchingWeb (str_exn e))]))
      in case tavily_client request of
           SearchRaises e \<Rightarrow> failed e
         | SearchResponse response \<Rightarrow>
             (case py_get response ''results'' (JList []) of
                Inl e \<Rightarrow> failed e
              | Inr results \<Rightarrow>
                  (JDict [(''results'', results), (''query'', JStr search_query)],
                   [TavilySearch request])))"

section \<open>Claim verifier\<close>

text \<open>One pass of the loop of lines 147 to 151: the block of one search result.\<close>

definition source_block :: "nat \<Rightarrow> json \<Rightarrow> exn + source" where
  "source_block i result =
     (case py_get result ''title'' (JStr ''N/A'') of Inl e \<Rightarrow> Inl e | Inr t \<Rightarrow>
      (case py_get result ''content'' (JStr ''N/A'') of Inl e \<Rightarrow> Inl e | Inr c \<Rightarrow>
      (case py_slice_to c 500 of Inl e \<Rightarrow> Inl e | Inr c500 \<Rightarrow>
      (case py_get result ''url'' (JStr ''N/A'') of Inl e \<Rightarrow> Inl e | Inr u \<Rightarrow>
        Inr \<lparr>index = i, title = t, content = c500, url = u\<rparr>))))"

fun source_blocks :: "nat \<Rightarrow> json list \<Rightarrow> exn + source list" where
  "source_blocks i [] = Inr []"
| "source_blocks i (result # rest) =
     (case source_block i result of Inl e \<Rightarrow> Inl e | Inr b \<Rightarrow>
      (case source_blocks (Suc i) rest of Inl e \<Rightarrow> Inl e | Inr bs \<Rightarrow> Inr (b # bs)))"

text \<open>
  Lines 145 to 151. Under the test of line 146 the key is present, so
  \<^verbatim>\<open>search_results["results"]\<close> is the value the test read.
\<close>

definition search_context :: "json \<Rightarrow> exn + source list" where
  "search_context search_results =
     (case py_get search_results ''results'' JNull of Inl e \<Rightarrow> Inl e | Inr results \<Rightarrow>
        if truthy results then
          (case py_slice_to results 3 of Inl e \<Rightarrow> Inl e | Inr first3 \<Rightarrow>
             source_blocks 1 (py_iter first3))
        else Inr [])"

text \<open>The comprehension of line 197: the truthy \<^verbatim>\<open>url\<close> values, in order.\<close>

fun collect_urls :: "json list \<Rightarrow> exn + json list" where
  "collect_urls [] = Inr []"
| "collect_urls (r # rest) =
     (case py_get r ''url'' JNull of Inl e \<Rightarrow> Inl e | Inr test \<Rightarrow>
        if truthy test then
          (case py_get r ''url'' (JStr []) of Inl e \<Rightarrow> Inl e | Inr u \<Rightarrow>
           (case collect_urls rest of Inl e \<Rightarrow> Inl e | Inr us \<Rightarrow> Inr (u # us)))
        else collect_urls rest)"

definition sources_of :: "json \<Rightarrow> exn + json list" where
  "sources_of search_results =
     (case py_get search_results ''results'' (JList []) of Inl e \<Rightarrow> Inl e | Inr results \<Rightarrow>
      (case py_slice_to results 3 of Inl e \<Rightarrow> Inl e | Inr first3 \<Rightarrow>
        collect_urls (py_iter first3)))"

definition verification_request :: "json \<Rightarrow> json \<Rightarrow> source list \<Rightarrow> llm_request" where
  "verification_request claim_text claim_type context =
     \<lparr>model = ''gpt-4o-mini'',
      system_content = ''You are a professional fact-checker. Analyze claims against evidence and provide accurate verification.'',
      user_content = VerificationPrompt claim_text claim_type context,
      temperature = 2 / 10,
      response_format = ''json_object''\<rparr>"

text \<open>The dictionary of lines 190 to 198, its entries evaluated in order.\<close>

definition verification_result :: "json \<Rightarrow> json \<Rightarrow> json \<Rightarrow> json \<Rightarrow> exn + json" where
  "verification_result claim_text claim_type verification search_results =
     (case py_get verification ''status'' (JStr ''UNKNOWN'') of Inl e \<Rightarrow> Inl e | Inr st \<Rightarrow>
      (case py_get verification ''explanation'' (JStr []) of Inl e \<Rightarrow> Inl e | Inr ex \<Rightarrow>
      (case py_get verification ''correct_info'' JNull of Inl e \<Rightarrow> Inl e | Inr ci \<Rightarrow>
      (case py_get verification ''confidence'' (JStr ''MEDIUM'') of Inl e \<Rightarrow> Inl e | Inr co \<Rightarrow>
      (case sources_of search_results of Inl e \<Rightarrow> Inl e | Inr srcs \<Rightarrow>
        Inr (JDict [(''claim'', claim_text), (''type'', claim_type), (''status'', st),
                    (''explanation'', ex), (''correct_info'', ci), (''confidence'', co),
                    (''sources'', JList srcs)]))))))"

text \<open>The body of the \<^verbatim>\<open>try\<close> of \<^verbatim>\<open>verify_claim\<close>, lines 141 to 198.\<close>

definition verify_claim_try :: "json \<Rightarrow> json \<Rightarrow> openai \<Rightarrow> (exn + json) \<times> event list" where
  "verify_claim_try claim search_results openai_client =
     (case py_get claim ''claim'' (JStr []) of Inl e \<Rightarrow> (Inl e, []) | Inr claim_text \<Rightarrow>
      (case py_get claim ''type'' (JStr ''other'') of Inl e \<Rightarrow> (Inl e, []) | Inr claim_type \<Rightarrow>
      (case search_context search_results of Inl e \<Rightarrow> (Inl e, []) | Inr context \<Rightarrow>
        (let request = verification_request claim_text claim_type context
         in case openai_client request of
              CreateRaises e \<Rightarrow> (Inl e, [ChatCompletion request])
            | Content (Inl e) \<Rightarrow> (Inl e, [ChatCompletion request])
            | Content (Inr verification) \<Rightarrow>
                (verification_result claim_text claim_type verification search_results,
                 [ChatCompletion request])))))"

text \<open>
  The two handlers, lines 200 to 221. Each first formats its warning, which slices the
  claim's text; an exception raised there leaves \<^verbatim>\<open>verify_claim\<close>.
\<close>

definition error_result :: "json \<Rightarrow> json \<Rightarrow> string \<Rightarrow> json" where
  "error_result claim_text claim_type explanation =
     JDict [(''claim'', claim_text), (''type'', claim_type), (''status'', JStr ''ERROR''),
            (''explanation'', JStr explanation), (''correct_info'', JNull),
            (''confidence'', JStr ''LOW''), (''sources'', JList [])]"

definition verify_claim_except :: "json \<Rightarrow> exn \<Rightarrow> (exn + json) \<times> event list" where
  "verify_claim_except claim e =
     (case py_get claim ''claim'' (JStr []) of Inl e' \<Rightarrow> (Inl e', []) | Inr shown \<Rightarrow>
      (case py_slice_to shown 50 of Inl e' \<Rightarrow> (Inl e', []) | Inr shown50 \<Rightarrow>
      (case py_get claim ''claim'' (JStr []) of Inl e' \<Rightarrow> (Inl e', []) | Inr claim_text \<Rightarrow>
      (case py_get claim ''type'' (JStr ''other'') of Inl e' \<Rightarrow> (Inl e', []) | Inr claim_type \<Rightarrow>
        (if is_JSONDecodeError e then
           (Inr (error_result claim_text claim_type
                   (''Error parsing verification response: '' @ str_exn e)),
            [StWarning (ErrorParsingVerification shown50)])
         else
           (Inr (error_result claim_text claim_type
                   (''Error during verification: '' @ str_exn e)),
            [StWarning (ErrorVerifyingClaim shown50 (str_exn e))]))))))"

definition verify_claim :: "json \<Rightarrow> json \<Rightarrow> openai \<Rightarrow> (exn + json) \<times> event list" where
  "verify_claim claim search_results openai_client =
     (case verify_claim_try claim search_results openai_client of
        (Inr result, evs) \<Rightarrow> (Inr result, evs)
      | (Inl e, evs) \<Rightarrow>
          (case verify_claim_except claim e of (r, evs') \<Rightarrow> (r, evs @ evs')))"

section \<open>Verification orchestrator\<close>

text \<open>Lines 292 to 294: the preview of the extracted claims, outside any handler.\<close>

definition claim_preview :: "nat \<Rightarrow> json \<Rightarrow> exn + event list" where
  "claim_preview i claim =
     (case py_get claim ''claim'' (JStr ''N/A'') of Inl e \<Rightarrow> Inl e | Inr shown \<Rightarrow>
      (case py_slice_to shown 100 of Inl e \<Rightarrow> Inl e | Inr shown100 \<Rightarrow>
      (case py_get claim ''type'' (JStr ''unknown'') of Inl e \<Rightarrow> Inl e | Inr ty \<Rightarrow>
        Inr [StMarkdown (ClaimPreview i shown100), StCaption (ClaimType ty)])))"

fun claims_preview :: "nat \<Rightarrow> json list \<Rightarrow> (exn + unit) \<times> event list" where
  "claims_preview i [] = (Inr (), [])"
| "claims_preview i (claim # claims) =
     (case claim_preview i claim of
        Inl e \<Rightarrow> (Inl e, [])
      | Inr evs \<Rightarrow> (case claims_preview (Suc i) claims of (r, evs') \<Rightarrow> (r, evs @ evs')))"

text \<open>
  One pass of the loop of lines 304 to 317, up to the \<^verbatim>\<open>append\<close>: the search and the
  verification of one claim. The two \<^verbatim>\<open>claim.get\<close> of the call of line 309 stand
  outside any handler.
\<close>

definition verify_pass ::
  "(json \<Rightarrow> string) \<Rightarrow> tavily \<Rightarrow> openai \<Rightarrow> json \<Rightarrow> (exn + json) \<times> event list" where
  "verify_pass py_str tavily_client openai_client claim =
     (case py_get claim ''claim'' (JStr []) of Inl e \<Rightarrow> (Inl e, []) | Inr claim_text \<Rightarrow>
      (case py_get claim ''type'' (JStr ''other'') of Inl e \<Rightarrow> (Inl e, []) | Inr claim_type \<Rightarrow>
      (case search_web_for_claim py_str claim_text claim_type tavily_client of
         (search_results, evs1) \<Rightarrow>
      (case verify_claim claim search_results openai_client of
         (verification, evs2) \<Rightarrow> (verification, evs1 @ evs2)))))"

text \<open>
  The loop of lines 301 to 317. The reply of a service may differ from call to call, so
  the two clients are given per pass of the loop: \<open>tavily_client idx\<close> and
  \<open>openai_client idx\<close> answer the requests made for the claim at position \<open>idx\<close>.
\<close>

fun verify_loop ::
  "(json \<Rightarrow> string) \<Rightarrow> (nat \<Rightarrow> tavily) \<Rightarrow> (nat \<Rightarrow> openai) \<Rightarrow> nat \<Rightarrow> json list \<Rightarrow> json list
     \<Rightarrow> (exn + json list) \<times> event list" where
  "verify_loop py_str tavily_client openai_client idx [] results = (Inr results, [])"
| "verify_loop py_str tavily_client openai_client idx (claim # claims) results =
     (case verify_pass py_str (tavily_client idx) (openai_client idx) claim of
        (Inl e, evs1) \<Rightarrow> (Inl e, evs1)
      | (Inr verification, evs1) \<Rightarrow>
          (case verify_loop py_str tavily_client openai_client (Suc idx) claims
                  (results @ [verification]) of
             (r, evs2) \<Rightarrow> (r, evs1 @ evs2)))"

text \<open>
  The part of \<^verbatim>\<open>main\<close> that handles an uploaded file, lines 269 to 326. It ends with
  \<^verbatim>\<open>st.stop()\<close>, with an exception that no handler catches, with the claims shown and
  the button not pressed, or with the results stored in the session and a rerun.
  \<open>extraction_client\<close> answers the one request of \<^verbatim>\<open>extract_claims\<close>. The display of
  the stored results, lines 329 to 385, is not part of it; its summary is
  \<open>summary_statistics\<close> below.
\<close>

datatype outcome = Stopped | Raised exn | Waiting "json list" | Rerun "json list"

definition main_document ::
  "(json \<Rightarrow> string) \<Rightarrow> pdf_file \<Rightarrow> openai \<Rightarrow> (nat \<Rightarrow> tavily) \<Rightarrow> (nat \<Rightarrow> openai) \<Rightarrow> bool
     \<Rightarrow> outcome \<times> event list" where
  "main_document py_str uploaded_file extraction_client tavily_client openai_client button =
     (case extract_text_from_pdf uploaded_file of (pdf_text, evs1) \<Rightarrow>
        if pdf_text = [] then (Stopped, evs1 @ [StError CouldNotExtractText])
        else
          (case extract_claims pdf_text extraction_client of (claims, evs2) \<Rightarrow>
             (let evs = evs1 @ [StSuccess (ExtractedCharacters (length pdf_text))] @ evs2
              in if claims = [] then (Stopped, evs @ [StWarning NoVerifiableClaims])
                 else
                   (case claims_preview 1 claims of
                      (Inl e, evs3) \<Rightarrow>
                        (Raised e, evs @ [StSuccess (FoundClaims (length claims))] @ evs3)
                    | (Inr u, evs3) \<Rightarrow>
                        (let shown = evs @ [StSuccess (FoundClaims (length claims))] @ evs3
                         in if button then
                              (case verify_loop py_str tavily_client openai_client 0 claims [] of
                                 (Inl e, evs4) \<Rightarrow> (Raised e, shown @ evs4)
                               | (Inr results, evs4) \<Rightarrow> (Rerun results, shown @ evs4))
                            else (Waiting claims, shown))))))"

subsection \<open>Summary statistics\<close>

text \<open>Lines 336 to 339: the dictionary \<^verbatim>\<open>status_counts\<close>.\<close>

fun count_statuses :: "(json \<rightharpoonup> nat) \<Rightarrow> json list \<Rightarrow> exn + (json \<rightharpoonup> nat)" where
  "count_statuses status_counts [] = Inr status_counts"
| "count_statuses status_counts (result # results) =
     (case py_get result ''status'' (JStr ''UNKNOWN'') of Inl e \<Rightarrow> Inl e | Inr status \<Rightarrow>
      (case py_key status of Inl e \<Rightarrow> Inl e | Inr k \<Rightarrow>
        count_statuses
          (status_counts(k \<mapsto> Suc (case status_counts k of None \<Rightarrow> 0 | Some n \<Rightarrow> n)))
          results))"

definition counts_get :: "(json \<rightharpoonup> nat) \<Rightarrow> string \<Rightarrow> nat" where
  "counts_get status_counts status =
     (case status_counts (JStr status) of None \<Rightarrow> 0 | Some n \<Rightarrow> n)"

text \<open>
  \<^verbatim>\<open>count / len(results) * 100\<close>. The program computes it in floating point and prints
  it with one decimal; the model keeps the exact quotient that is printed.
\<close>

definition percent :: "nat \<Rightarrow> nat \<Rightarrow> exn + rat" where
  "percent cnt len_results =
     (if len_results = 0 then Inl (ZeroDivisionError ''division by zero'')
      else Inr (of_nat cnt / of_nat len_results * 100))"

record summary =
  total_claims :: nat
  verified :: nat
  verified_percent :: rat
  inaccurate :: nat
  inaccurate_percent :: rat
  false_claims :: nat
  false_percent :: rat

text \<open>Lines 336 to 352: the four metrics shown above the detailed results.\<close>

definition summary_statistics :: "json list \<Rightarrow> exn + summary" where
  "summary_statistics results =
     (case count_statuses Map.empty results of Inl e \<Rightarrow> Inl e | Inr status_counts \<Rightarrow>
      (case percent (counts_get status_counts ''VERIFIED'') (length results) of
        Inl e \<Rightarrow> Inl e | Inr vp \<Rightarrow>
      (case percent (counts_get status_counts ''INACCURATE'') (length results) of
        Inl e \<Rightarrow> Inl e | Inr ip \<Rightarrow>
      (case percent (counts_get status_counts ''FALSE'') (length results) of
        Inl e \<Rightarrow> Inl e | Inr fp \<Rightarrow>
        Inr \<lparr>total_claims = length results,
             verified = counts_get status_counts ''VERIFIED'', verified_percent = vp,
             inaccurate = counts_get status_counts ''INACCURATE'', inaccurate_percent = ip,
             false_claims = counts_get status_counts ''FALSE'', false_percent = fp\<rparr>))))"

section \<open>Observations on a trace and example services\<close>

text \<open>The requests to the language model, the search requests and the notices of a trace.\<close>

fun chat_requests :: "event list \<Rightarrow> llm_request list" where
  "chat_requests [] = []"
| "chat_requests (ChatCompletion r # evs) = r # chat_requests evs"
| "chat_requests (ev # evs) = chat_requests evs"

fun search_requests :: "event list \<Rightarrow> search_request list" where
  "search_requests [] = []"
| "search_requests (TavilySearch r # evs) = r # search_requests evs"
| "search_requests (ev # evs) = search_requests evs"

fun infos :: "event list \<Rightarrow> message list" where
  "infos [] = []"
| "infos (StInfo m # evs) = m # infos evs"
| "infos (ev # evs) = infos evs"

text \<open>
  The search results that \<open>verify_claim\<close> reads from the output of the retriever: the
  first three, when the \<^verbatim>\<open>results\<close> entry is a list.
\<close>

definition evidence_snippets :: "json \<Rightarrow> json list" where
  "evidence_snippets search_results =
     (case py_get search_results ''results'' (JList []) of
        Inr (JList rs) \<Rightarrow> take 3 rs
      | _ \<Rightarrow> [])"

text \<open>
  What the summary is compared with: the results whose \<^verbatim>\<open>status\<close> is a given string
  (read as line 338 does), their number, the results whose status can be a key of
  \<^verbatim>\<open>status_counts\<close>, and the sum of the three percentages shown.
\<close>

definition has_status :: "string \<Rightarrow> json \<Rightarrow> bool" where
  "has_status s result = (py_get result ''status'' (JStr ''UNKNOWN'') = Inr (JStr s))"

definition count_status :: "string \<Rightarrow> json list \<Rightarrow> nat" where
  "count_status s results = length (filter (has_status s) results)"

definition hashable_status :: "json \<Rightarrow> bool" where
  "hashable_status result =
     (case py_get result ''status'' (JStr ''UNKNOWN'') of
        Inl e \<Rightarrow> False
      | Inr status \<Rightarrow> (case py_key status of Inl e \<Rightarrow> False | Inr k \<Rightarrow> True))"

definition percent_sum :: "summary \<Rightarrow> rat" where
  "percent_sum s = verified_percent s + inaccurate_percent s + false_percent s"

text \<open>
  Services with a fixed behaviour, a rendering that is the identity on strings, and a
  claim, for the examples below.
\<close>

fun example_str :: "json \<Rightarrow> string" where
  "example_str (JStr s) = s"
| "example_str v = ''?''"

definition reply_with :: "json \<Rightarrow> openai" where
  "reply_with v request = Content (Inr v)"

definition reply_undecodable :: "exn \<Rightarrow> openai" where
  "reply_undecodable e request = Content (Inl e)"

definition create_raises :: "exn \<Rightarrow> openai" where
  "create_raises e request = CreateRaises e"

definition search_responds :: "json \<Rightarrow> tavily" where
  "search_responds v request = SearchResponse v"

definition search_raises :: "exn \<Rightarrow> tavily" where
  "search_raises e request = SearchRaises e"

definition each_pass :: "'a \<Rightarrow> nat \<Rightarrow> 'a" where
  "each_pass client idx = client"

definition gdp_claim :: json where
  "gdp_claim =
     JDict [(''claim'', JStr ''GDP was 5 trillion in 2020''), (''type'', JStr ''financial'')]"

definition no_evidence :: json where
  "no_evidence = JDict [(''results'', JList []), (''query'', JStr ''GDP was 5 trillion in 2020'')]"

definition four_results :: json where
  "four_results =
     JDict [(''results'',
             JList [JDict [(''title'', JStr ''A''), (''content'', JStr ''4.8 trillion''), (''url'', JStr ''https://a.example'')],
                    JDict [(''title'', JStr ''B''), (''content'', JStr ''about 5''), (''url'', JStr '''')],
                    JDict [(''title'', JStr ''C''), (''url'', JStr ''https://c.example'')],
                    JDict [(''title'', JStr ''D''), (''url'', JStr ''https://d.example'')]]),
            (''query'', JStr ''GDP was 5 trillion in 2020'')]"

definition bare_verdict :: json where
  "bare_verdict = JDict [(''explanation'', JStr ''close to the reported figure'')]"

definition verified_verdict :: json where
  "verified_verdict =
     JDict [(''status'', JStr ''VERIFIED''), (''explanation'', JStr ''matches''),
            (''correct_info'', JNull), (''confidence'', JStr ''HIGH'')]"

definition untyped_claim :: json where
  "untyped_claim = JDict [(''entities'', JList [])]"

definition only_first_answers :: "nat \<Rightarrow> openai" where
  "only_first_answers idx =
     (if idx = 0 then reply_with verified_verdict else create_raises (ClientError ''rate limit''))"

definition error_only :: "json list" where
  "error_only = [error_result (JStr ''GDP was 5 trillion in 2020'') (JStr ''financial'')
                   ''Error during verification: rate limit'']"

definition mixed_results :: "json list" where
  "mixed_results =
     [JDict [(''claim'', JStr ''GDP was 5 trillion in 2020''), (''type'', JStr ''financial''),
             (''status'', JStr ''VERIFIED''), (''explanation'', JStr ''matches''),
             (''correct_info'', JNull), (''confidence'', JStr ''HIGH''), (''sources'', JList [])],
      error_result (JStr []) (JStr ''other'') ''Error during verification: rate limit'']"

section \<open>Properties of the trace observations\<close>

lemma chat_requests_append:
  "chat_requests (xs @ ys) = chat_requests xs @ chat_requests ys"
  by (induction xs rule: chat_requests.induct) simp_all

lemma search_requests_append:
  "search_requests (xs @ ys) = search_requests xs @ search_requests ys"
  by (induction xs rule: search_requests.induct) simp_all

lemma infos_append: "infos (xs @ ys) = infos xs @ infos ys"
  by (induction xs rule: infos.induct) simp_all

section \<open>The claim extractor\<close>

text \<open>
  C3. When the response of the extraction oracle decodes to an object whose \<^verbatim>\<open>claims\<close>
  entry is a list, or to a bare list, \<open>extract_claims\<close> returns that list; for every
  other decoded value, an object whose \<^verbatim>\<open>claims\<close> entry is not a list included, it
  returns the empty list.
\<close>

theorem extract_claims_shapes:
  assumes "openai_client (extraction_request (text_to_analyze text)) = Content (Inr result)"
  shows "(\<forall>kvs cs. result = JDict kvs \<and> map_of kvs ''claims'' = Some (JList cs)
            \<longrightarrow> fst (extract_claims text openai_client) = cs)
       \<and> (\<forall>cs. result = JList cs \<longrightarrow> fst (extract_claims text openai_client) = cs)
       \<and> ((\<forall>cs. result \<noteq> JList cs)
            \<and> (\<forall>kvs cs. result = JDict kvs \<longrightarrow> map_of kvs ''claims'' \<noteq> Some (JList cs))
            \<longrightarrow> fst (extract_claims text openai_client) = [])"
  using assms
  by (auto simp: extract_claims_def claims_of_result_def Let_def
        split: json.splits option.splits)

theorem extract_claims_shapes_witness:
  "reply_with (JDict [(''claims'', JList [gdp_claim])])
       (extraction_request (text_to_analyze ''GDP''))
     = Content (Inr (JDict [(''claims'', JList [gdp_claim])]))
   \<and> fst (extract_claims ''GDP'' (reply_with (JDict [(''claims'', JList [gdp_claim])])))
       = [gdp_claim]"
  using extract_claims_shapes [of "reply_with (JDict [(''claims'', JList [gdp_claim])])"
      "''GDP''" "JDict [(''claims'', JList [gdp_claim])]"]
  by (simp add: reply_with_def)

text \<open>
  C6. For a text of more than 8000 characters, the one request that \<open>extract_claims\<close>
  sends to the extraction oracle carries the first 8000 characters of the text, and the
  caller is shown the notice of truncation; for a text of at most 8000 characters the
  request carries the whole text and no notice is shown.
\<close>

theorem extract_claims_truncation:
  "(max_text_length < length text \<longrightarrow>
      map user_content (chat_requests (snd (extract_claims text openai_client)))
        = [ExtractionPrompt (take 8000 text)]
      \<and> infos (snd (extract_claims text openai_client)) = [DocumentIsLarge 8000])
   \<and> (length text \<le> max_text_length \<longrightarrow>
      map user_content (chat_requests (snd (extract_claims text openai_client)))
        = [ExtractionPrompt text]
      \<and> infos (snd (extract_claims text openai_client)) = [])"
  by (auto simp: extract_claims_def Let_def text_to_analyze_def truncation_notice_def
        extraction_request_def max_text_length_def extract_claims_except_def
        chat_requests_append infos_append
        split: completion.splits sum.splits)

theorem extract_claims_truncation_witness:
  "max_text_length < length (replicate 8001 CHR ''a'')
   \<and> map user_content
        (chat_requests (snd (extract_claims (replicate 8001 CHR ''a'') (reply_with (JList [])))))
       = [ExtractionPrompt (replicate 8000 CHR ''a'')]
   \<and> infos (snd (extract_claims (replicate 8001 CHR ''a'') (reply_with (JList []))))
       = [DocumentIsLarge 8000]
   \<and> length ''GDP'' \<le> max_text_length
   \<and> map user_content (chat_requests (snd (extract_claims ''GDP'' (reply_with (JList [])))))
       = [ExtractionPrompt ''GDP'']
   \<and> infos (snd (extract_claims ''GDP'' (reply_with (JList [])))) = []"
  using extract_claims_truncation [of "replicate 8001 CHR ''a''" "reply_with (JList [])"]
    extract_claims_truncation [of "''GDP''" "reply_with (JList [])"]
  by (simp add: max_text_length_def)

section \<open>The evidence retriever\<close>

text \<open>
  C7. \<open>search_web_for_claim\<close> sends exactly one search request, with depth
  \<^verbatim>\<open>advanced\<close> and at most 5 results asked for; when the search call raises, it returns
  the empty list of results together with the claim it was given as the query, and no
  exception leaves the function.
\<close>

theorem search_web_for_claim_contract:
  "search_requests (snd (search_web_for_claim py_str claim claim_type tavily_client))
     = [\<lparr>query = py_str claim, search_depth = ''advanced'', max_results = 5\<rparr>]
   \<and> ((\<exists>e. tavily_client (search_request_of (py_str claim)) = SearchRaises e)
        \<longrightarrow> fst (search_web_for_claim py_str claim claim_type tavily_client)
              = JDict [(''results'', JList []), (''query'', claim)])"
  by (auto simp: search_web_for_claim_def Let_def search_request_of_def
        split: search_reply.splits sum.splits)

theorem search_web_for_claim_contract_witness:
  "search_raises (ClientError ''timeout'') (search_request_of (example_str (JStr ''GDP'')))
     = SearchRaises (ClientError ''timeout'')
   \<and> fst (search_web_for_claim example_str (JStr ''GDP'') (JStr ''financial'')
             (search_raises (ClientError ''timeout'')))
       = JDict [(''results'', JList []), (''query'', JStr ''GDP'')]"
  using search_web_for_claim_contract [of example_str "JStr ''GDP''" "JStr ''financial''"
      "search_raises (ClientError ''timeout'')"]
  by (simp add: search_raises_def)

section \<open>The claim verifier\<close>

lemma py_slice_to_any: "py_slice_to v n = Inr x \<Longrightarrow> \<exists>y. py_slice_to v m = Inr y"
  by (cases v) simp_all

lemma py_get_Inr_dict: "py_get v k d = Inr x \<Longrightarrow> \<exists>kvs. v = JDict kvs"
  by (cases v) simp_all

lemma claim_preview_dict:
  assumes "claim_preview i claim = Inr evs"
  shows "\<exists>kvs. claim = JDict kvs"
  using assms by (cases claim) (simp_all add: claim_preview_def)

lemma claim_preview_sliceable:
  assumes "claim_preview i (JDict kvs) = Inr evs"
  shows "\<exists>y. py_slice_to (case map_of kvs ''claim'' of None \<Rightarrow> JStr [] | Some v \<Rightarrow> v) 50 = Inr y"
proof (cases "map_of kvs ''claim''")
  case None
  then show ?thesis by simp
next
  case (Some v)
  with assms obtain x where "py_slice_to v 100 = Inr x"
    by (auto simp: claim_preview_def split: sum.splits)
  then show ?thesis using Some by (simp add: py_slice_to_any)
qed

text \<open>A claim that went through the preview makes neither handler raise.\<close>

lemma verify_claim_except_result:
  assumes "claim_preview i claim = Inr pevs"
  shows "\<exists>kvs. claim = JDict kvs \<and>
     fst (verify_claim_except claim e) =
       Inr (error_result (case map_of kvs ''claim'' of None \<Rightarrow> JStr [] | Some v \<Rightarrow> v)
              (case map_of kvs ''type'' of None \<Rightarrow> JStr ''other'' | Some v \<Rightarrow> v)
              ((if is_JSONDecodeError e then ''Error parsing verification response: ''
                else ''Error during verification: '') @ str_exn e))"
proof -
  from assms obtain kvs where c: "claim = JDict kvs" using claim_preview_dict by blast
  with assms obtain y where
    "py_slice_to (case map_of kvs ''claim'' of None \<Rightarrow> JStr [] | Some v \<Rightarrow> v) 50 = Inr y"
    using claim_preview_sliceable by blast
  then show ?thesis using c by (simp add: verify_claim_except_def)
qed

lemma verify_claim_raise:
  assumes "fst (verify_claim_try claim search_results openai_client) = Inl e"
  shows "fst (verify_claim claim search_results openai_client)
           = fst (verify_claim_except claim e)"
  using assms by (auto simp: verify_claim_def split: prod.splits sum.splits)

lemma verify_claim_return:
  assumes "fst (verify_claim_try claim search_results openai_client) = Inr r"
  shows "verify_claim claim search_results openai_client
           = verify_claim_try claim search_results openai_client"
  using assms by (auto simp: verify_claim_def split: prod.splits sum.splits)

lemma verify_claim_returns:
  assumes "claim_preview i claim = Inr pevs"
  shows "\<exists>r. fst (verify_claim claim search_results openai_client) = Inr r"
proof (cases "fst (verify_claim_try claim search_results openai_client)")
  case (Inl e)
  then show ?thesis
    using verify_claim_raise[OF Inl] verify_claim_except_result[OF assms, of e] by auto
next
  case (Inr r)
  then show ?thesis using verify_claim_return[OF Inr] by simp
qed

text \<open>
  C4. Take a claim that \<^verbatim>\<open>main\<close> lets through to the verification (it passed the
  preview of the extracted claims) and evidence from which the prompt is built. When the
  call of the verification oracle raises, or the content of its response does not decode,
  \<open>verify_claim\<close> returns a result, and does not raise: the result has status
  \<^verbatim>\<open>ERROR\<close>, confidence \<^verbatim>\<open>LOW\<close>, no sources, and an explanation that ends with the text
  of the exception.
\<close>

theorem verify_claim_error_result:
  assumes "claim_preview i claim = Inr pevs"
      and "py_get claim ''claim'' (JStr []) = Inr claim_text"
      and "py_get claim ''type'' (JStr ''other'') = Inr claim_type"
      and "search_context search_results = Inr context"
      and "openai_client (verification_request claim_text claim_type context) = CreateRaises e
         \<or> openai_client (verification_request claim_text claim_type context) = Content (Inl e)"
  shows "fst (verify_claim claim search_results openai_client) =
           Inr (JDict [(''claim'', claim_text), (''type'', claim_type),
                       (''status'', JStr ''ERROR''),
                       (''explanation'',
                          JStr ((if is_JSONDecodeError e
                                 then ''Error parsing verification response: ''
                                 else ''Error during verification: '') @ str_exn e)),
                       (''correct_info'', JNull), (''confidence'', JStr ''LOW''),
                       (''sources'', JList [])])"
proof -
  have "fst (verify_claim_try claim search_results openai_client) = Inl e"
    using assms(2-5) by (auto simp: verify_claim_try_def Let_def)
  then have "fst (verify_claim claim search_results openai_client)
               = fst (verify_claim_except claim e)"
    by (rule verify_claim_raise)
  moreover obtain kvs where "claim = JDict kvs"
    and "fst (verify_claim_except claim e) =
       Inr (error_result (case map_of kvs ''claim'' of None \<Rightarrow> JStr [] | Some v \<Rightarrow> v)
              (case map_of kvs ''type'' of None \<Rightarrow> JStr ''other'' | Some v \<Rightarrow> v)
              ((if is_JSONDecodeError e then ''Error parsing verification response: ''
                else ''Error during verification: '') @ str_exn e))"
    using verify_claim_except_result[OF assms(1), of e] by blast
  ultimately show ?thesis using assms(2,3) by (simp add: error_result_def)
qed

theorem verify_claim_error_result_witness:
  "claim_preview 1 gdp_claim
     = Inr [StMarkdown (ClaimPreview 1 (JStr ''GDP was 5 trillion in 2020'')),
            StCaption (ClaimType (JStr ''financial''))]
   \<and> search_context no_evidence = Inr []
   \<and> fst (verify_claim gdp_claim no_evidence (create_raises (ClientError ''rate limit'')))
       = Inr (JDict [(''claim'', JStr ''GDP was 5 trillion in 2020''),
                     (''type'', JStr ''financial''), (''status'', JStr ''ERROR''),
                     (''explanation'', JStr ''Error during verification: rate limit''),
                     (''correct_info'', JNull), (''confidence'', JStr ''LOW''),
                     (''sources'', JList [])])
   \<and> fst (verify_claim gdp_claim no_evidence
             (reply_undecodable (JSONDecodeError ''Expecting value'')))
       = Inr (JDict [(''claim'', JStr ''GDP was 5 trillion in 2020''),
                     (''type'', JStr ''financial''), (''status'', JStr ''ERROR''),
                     (''explanation'',
                        JStr ''Error parsing verification response: Expecting value''),
                     (''correct_info'', JNull), (''confidence'', JStr ''LOW''),
                     (''sources'', JList [])])"
  using verify_claim_error_result [of 1 gdp_claim _ "JStr ''GDP was 5 trillion in 2020''"
      "JStr ''financial''" no_evidence "[]"
      "create_raises (ClientError ''rate limit'')" "ClientError ''rate limit''"]
    verify_claim_error_result [of 1 gdp_claim _ "JStr ''GDP was 5 trillion in 2020''"
      "JStr ''financial''" no_evidence "[]"
      "reply_undecodable (JSONDecodeError ''Expecting value'')"
      "JSONDecodeError ''Expecting value''"]
  by (simp add: gdp_claim_def no_evidence_def claim_preview_def search_context_def
        create_raises_def reply_undecodable_def)

subsection \<open>The sources of a result\<close>

lemma collect_urls_length: "collect_urls xs = Inr us \<Longrightarrow> length us \<le> length xs"
proof (induction xs arbitrary: us)
  case Nil
  then show ?case by simp
next
  case (Cons x xs)
  then show ?case
    by (fastforce split: sum.splits if_splits)
qed

lemma collect_urls_member:
  "collect_urls xs = Inr us \<Longrightarrow> u \<in> set us \<Longrightarrow>
     \<exists>kvs. JDict kvs \<in> set xs \<and> map_of kvs ''url'' = Some u"
proof (induction xs arbitrary: us)
  case Nil
  then show ?case by simp
next
  case (Cons x xs)
  from Cons.prems(1) obtain kvs where x: "x = JDict kvs"
    by (cases x) (simp_all split: sum.splits)
  show ?case
  proof (cases "map_of kvs ''url''")
    case None
    with Cons x show ?thesis by (auto split: sum.splits if_splits)
  next
    case (Some v)
    with Cons x show ?thesis by (fastforce split: sum.splits if_splits)
  qed
qed

lemma collect_urls_chars: "collect_urls (map (\<lambda>c. JStr [c]) s) = Inr us \<Longrightarrow> us = []"
  by (cases s) simp_all

lemma source_block_url:
  "source_block i (JDict kvs) = Inr b \<Longrightarrow> map_of kvs ''url'' = Some u \<Longrightarrow> url b = u"
  by (auto simp: source_block_def split: sum.splits)

lemma source_blocks_url:
  "source_blocks i xs = Inr bs \<Longrightarrow> JDict kvs \<in> set xs \<Longrightarrow> map_of kvs ''url'' = Some u
     \<Longrightarrow> u \<in> url ` set bs"
proof (induction xs arbitrary: i bs)
  case Nil
  then show ?case by simp
next
  case (Cons x xs)
  from Cons.prems(1) obtain b bs' where b: "source_block i x = Inr b"
    and bs': "source_blocks (Suc i) xs = Inr bs'" and bs: "bs = b # bs'"
    by (auto split: sum.splits)
  show ?case
  proof (cases "x = JDict kvs")
    case True
    with b Cons.prems(3) have "url b = u" by (simp add: source_block_url)
    with bs show ?thesis by force
  next
    case False
    with Cons.prems(2) have "JDict kvs \<in> set xs" by simp
    from Cons.IH[OF bs' this Cons.prems(3)] bs show ?thesis by auto
  qed
qed

lemma source_block_dict: "source_block i x = Inr b \<Longrightarrow> \<exists>kvs. x = JDict kvs"
  by (cases x) (simp_all add: source_block_def)

lemma source_blocks_collect_urls:
  "source_blocks i xs = Inr bs \<Longrightarrow> \<exists>us. collect_urls xs = Inr us"
proof (induction xs arbitrary: i bs)
  case Nil
  then show ?case by simp
next
  case (Cons x xs)
  from Cons.prems obtain b bs' where b: "source_block i x = Inr b"
    and bs': "source_blocks (Suc i) xs = Inr bs'"
    by (auto split: sum.splits)
  from b obtain kvs where "x = JDict kvs" using source_block_dict by blast
  moreover from Cons.IH[OF bs'] obtain us where "collect_urls xs = Inr us" ..
  ultimately show ?case by simp
qed

lemma sources_of_props:
  assumes "sources_of search_results = Inr srcs"
  shows "length srcs \<le> 3"
    and "u \<in> set srcs \<Longrightarrow>
           \<exists>kvs. JDict kvs \<in> set (evidence_snippets search_results) \<and> map_of kvs ''url'' = Some u"
proof -
  from assms obtain results first3 where
    r: "py_get search_results ''results'' (JList []) = Inr results"
    and f: "py_slice_to results 3 = Inr first3"
    and c: "collect_urls (py_iter first3) = Inr srcs"
    by (auto simp: sources_of_def split: sum.splits)
  show "length srcs \<le> 3"
  proof (cases results)
    case (JStr s)
    with f c have "collect_urls (map (\<lambda>c. JStr [c]) (take 3 s)) = Inr srcs" by auto
    then have "srcs = []" by (rule collect_urls_chars)
    then show ?thesis by simp
  next
    case (JList rs)
    with f c have "length srcs \<le> length (take 3 rs)" by (auto dest: collect_urls_length)
    then show ?thesis by simp
  qed (use f in simp_all)
  show "\<exists>kvs. JDict kvs \<in> set (evidence_snippets search_results) \<and> map_of kvs ''url'' = Some u"
    if "u \<in> set srcs"
  proof (cases results)
    case (JStr s)
    with f c have "collect_urls (map (\<lambda>c. JStr [c]) (take 3 s)) = Inr srcs" by auto
    then have "srcs = []" by (rule collect_urls_chars)
    with that show ?thesis by simp
  next
    case (JList rs)
    with f c have "collect_urls (take 3 rs) = Inr srcs" by auto
    from collect_urls_member[OF this that] r JList show ?thesis
      by (simp add: evidence_snippets_def)
  qed (use f in simp_all)
qed

lemma sources_in_context:
  assumes "sources_of search_results = Inr srcs"
      and "search_context search_results = Inr context"
      and "u \<in> set srcs"
  shows "u \<in> url ` set context"
proof -
  from assms(1) obtain results first3 where
    r: "py_get search_results ''results'' (JList []) = Inr results"
    and f: "py_slice_to results 3 = Inr first3"
    and c: "collect_urls (py_iter first3) = Inr srcs"
    by (auto simp: sources_of_def split: sum.splits)
  from r obtain d where d: "search_results = JDict d" using py_get_Inr_dict by blast
  show ?thesis
  proof (cases results)
    case (JStr s)
    with f c have "collect_urls (map (\<lambda>c. JStr [c]) (take 3 s)) = Inr srcs" by auto
    then have "srcs = []" by (rule collect_urls_chars)
    with assms(3) show ?thesis by simp
  next
    case (JList rs)
    with f c have cu: "collect_urls (take 3 rs) = Inr srcs" by auto
    from collect_urls_member[OF cu assms(3)] obtain kvs where
      k: "JDict kvs \<in> set (take 3 rs)" "map_of kvs ''url'' = Some u" by blast
    then have ne: "rs \<noteq> []" by auto
    from r d JList have "map_of d ''results'' = Some (JList rs)"
      using ne by (auto split: option.splits)
    with assms(2) d ne have "source_blocks 1 (take 3 rs) = Inr context"
      by (simp add: search_context_def)
    from source_blocks_url[OF this k] show ?thesis .
  qed (use f in simp_all)
qed

lemma sources_of_list:
  assumes "search_context search_results = Inr cx"
      and "py_get search_results ''results'' (JList []) = Inr (JList rs)"
  shows "\<exists>srcs. sources_of search_results = Inr srcs"
proof (cases "rs = []")
  case True
  with assms(2) show ?thesis by (simp add: sources_of_def)
next
  case False
  from assms(2) obtain d where d: "search_results = JDict d" using py_get_Inr_dict by blast
  with assms(2) False have "map_of d ''results'' = Some (JList rs)"
    by (auto split: option.splits)
  with assms(1) d False have "source_blocks 1 (take 3 rs) = Inr cx"
    by (simp add: search_context_def)
  then obtain us where "collect_urls (take 3 rs) = Inr us"
    using source_blocks_collect_urls by blast
  with assms(2) show ?thesis by (simp add: sources_of_def)
qed

subsection \<open>The two ways \<open>verify_claim\<close> returns\<close>

lemma verify_claim_try_Inr:
  assumes "fst (verify_claim_try claim search_results openai_client) = Inr r"
  shows "\<exists>claim_text claim_type context st ex ci co srcs.
           py_get claim ''claim'' (JStr []) = Inr claim_text
         \<and> py_get claim ''type'' (JStr ''other'') = Inr claim_type
         \<and> search_context search_results = Inr context
         \<and> sources_of search_results = Inr srcs
         \<and> snd (verify_claim_try claim search_results openai_client)
             = [ChatCompletion (verification_request claim_text claim_type context)]
         \<and> r = JDict [(''claim'', claim_text), (''type'', claim_type), (''status'', st),
                    (''explanation'', ex), (''correct_info'', ci), (''confidence'', co),
                    (''sources'', JList srcs)]"
  using assms
  by (auto simp: verify_claim_try_def verification_result_def Let_def
        split: sum.splits completion.splits)

lemma verify_claim_except_Inr:
  assumes "fst (verify_claim_except claim e) = Inr r"
  shows "\<exists>claim_text claim_type explanation.
           py_get claim ''claim'' (JStr []) = Inr claim_text
         \<and> py_get claim ''type'' (JStr ''other'') = Inr claim_type
         \<and> r = error_result claim_text claim_type explanation"
  using assms
  by (auto simp: verify_claim_except_def split: sum.splits if_splits)

lemma verify_claim_cases:
  assumes "fst (verify_claim claim search_results openai_client) = Inr r"
  obtains (returned) "fst (verify_claim_try claim search_results openai_client) = Inr r"
      "verify_claim claim search_results openai_client
         = verify_claim_try claim search_results openai_client"
    | (handled) e where "fst (verify_claim_try claim search_results openai_client) = Inl e"
      "fst (verify_claim_except claim e) = Inr r"
proof (cases "fst (verify_claim_try claim search_results openai_client)")
  case (Inl e)
  with assms verify_claim_raise[OF Inl] handled show ?thesis by simp
next
  case (Inr r')
  with assms verify_claim_return[OF Inr] returned show ?thesis by simp
qed

lemma verify_claim_carries_claim:
  assumes "fst (verify_claim claim search_results openai_client) = Inr r"
  shows "py_get r ''claim'' JNull = py_get claim ''claim'' (JStr [])"
    and "py_get r ''type'' JNull = py_get claim ''type'' (JStr ''other'')"
proof -
  from assms have "py_get r ''claim'' JNull = py_get claim ''claim'' (JStr [])
      \<and> py_get r ''type'' JNull = py_get claim ''type'' (JStr ''other'')"
  proof (cases rule: verify_claim_cases)
    case returned
    from verify_claim_try_Inr[OF returned(1)] show ?thesis by auto
  next
    case (handled e)
    from verify_claim_except_Inr[OF handled(2)] show ?thesis
      by (auto simp: error_result_def)
  qed
  then show "py_get r ''claim'' JNull = py_get claim ''claim'' (JStr [])"
    and "py_get r ''type'' JNull = py_get claim ''type'' (JStr ''other'')" by simp_all
qed

text \<open>
  C5. Whenever \<open>verify_claim\<close> returns a result, its \<^verbatim>\<open>sources\<close> entry is a list of at
  most 3 values, and each of them is the \<^verbatim>\<open>url\<close> of one of the first 3 search results
  given for that claim, and of one of the evidence blocks of the prompt sent to the
  verification oracle. A result is returned for every claim that \<^verbatim>\<open>main\<close> lets through
  to the verification.
\<close>

theorem sources_from_first_three:
  "(\<forall>r. fst (verify_claim claim search_results openai_client) = Inr r \<longrightarrow>
      (\<exists>srcs. py_get r ''sources'' JNull = Inr (JList srcs) \<and> length srcs \<le> 3
         \<and> (\<forall>u\<in>set srcs.
               (\<exists>snippet\<in>set (evidence_snippets search_results).
                   py_get snippet ''url'' JNull = Inr u)
             \<and> (\<exists>request\<in>set (chat_requests
                                  (snd (verify_claim claim search_results openai_client))).
                  \<exists>claim_text claim_type context.
                    user_content request = VerificationPrompt claim_text claim_type context
                  \<and> u \<in> url ` set context))))
   \<and> (\<forall>i pevs. claim_preview i claim = Inr pevs \<longrightarrow>
         (\<exists>r. fst (verify_claim claim search_results openai_client) = Inr r))"
proof (intro conjI allI impI)
  fix r
  assume res: "fst (verify_claim claim search_results openai_client) = Inr r"
  from res show "\<exists>srcs. py_get r ''sources'' JNull = Inr (JList srcs) \<and> length srcs \<le> 3
         \<and> (\<forall>u\<in>set srcs.
               (\<exists>snippet\<in>set (evidence_snippets search_results).
                   py_get snippet ''url'' JNull = Inr u)
             \<and> (\<exists>request\<in>set (chat_requests
                                  (snd (verify_claim claim search_results openai_client))).
                  \<exists>claim_text claim_type context.
                    user_content request = VerificationPrompt claim_text claim_type context
                  \<and> u \<in> url ` set context))"
  proof (cases rule: verify_claim_cases)
    case returned
    from verify_claim_try_Inr[OF returned(1)] obtain claim_text claim_type cx st ex ci co srcs
      where ctx: "search_context search_results = Inr cx"
        and src: "sources_of search_results = Inr srcs"
        and tr: "snd (verify_claim_try claim search_results openai_client)
                   = [ChatCompletion (verification_request claim_text claim_type cx)]"
        and r: "r = JDict [(''claim'', claim_text), (''type'', claim_type), (''status'', st),
                    (''explanation'', ex), (''correct_info'', ci), (''confidence'', co),
                    (''sources'', JList srcs)]"
      by blast
    have "py_get r ''sources'' JNull = Inr (JList srcs)" using r by simp
    moreover have "length srcs \<le> 3" using sources_of_props(1)[OF src] .
    moreover have "\<exists>snippet\<in>set (evidence_snippets search_results).
                   py_get snippet ''url'' JNull = Inr u" if "u \<in> set srcs" for u
      using sources_of_props(2)[OF src that] by force
    moreover have "\<exists>request\<in>set (chat_requests
                                  (snd (verify_claim claim search_results openai_client))).
                  \<exists>claim_text claim_type context.
                    user_content request = VerificationPrompt claim_text claim_type context
                  \<and> u \<in> url ` set context" if "u \<in> set srcs" for u
      using sources_in_context[OF src ctx that] returned(2) tr
      by (auto simp: verification_request_def)
    ultimately show ?thesis by blast
  next
    case (handled e)
    from verify_claim_except_Inr[OF handled(2)] show ?thesis
      by (auto simp: error_result_def)
  qed
next
  fix i pevs
  assume "claim_preview i claim = Inr pevs"
  then show "\<exists>r. fst (verify_claim claim search_results openai_client) = Inr r"
    by (rule verify_claim_returns)
qed

theorem sources_from_first_three_witness:
  "fst (verify_claim gdp_claim four_results (reply_with bare_verdict))
     = Inr (JDict [(''claim'', JStr ''GDP was 5 trillion in 2020''), (''type'', JStr ''financial''),
                   (''status'', JStr ''UNKNOWN''),
                   (''explanation'', JStr ''close to the reported figure''),
                   (''correct_info'', JNull), (''confidence'', JStr ''MEDIUM''),
                   (''sources'', JList [JStr ''https://a.example'', JStr ''https://c.example''])])
   \<and> map (\<lambda>snippet. py_get snippet ''url'' JNull) (evidence_snippets four_results)
       = [Inr (JStr ''https://a.example''), Inr (JStr []), Inr (JStr ''https://c.example'')]
   \<and> claim_preview 1 gdp_claim
       = Inr [StMarkdown (ClaimPreview 1 (JStr ''GDP was 5 trillion in 2020'')),
              StCaption (ClaimType (JStr ''financial''))]"
  using sources_from_first_three [of gdp_claim four_results "reply_with bare_verdict"]
  by (simp add: gdp_claim_def four_results_def bare_verdict_def reply_with_def
        verify_claim_def verify_claim_try_def search_context_def source_block_def
        verification_request_def verification_result_def sources_of_def
        evidence_snippets_def claim_preview_def)

text \<open>
  C9. When the verification oracle is called and the content of its response decodes to
  an object, the result of \<open>verify_claim\<close> has a \<^verbatim>\<open>status\<close> entry, which is the
  \<^verbatim>\<open>status\<close> of the verdict, or \<^verbatim>\<open>UNKNOWN\<close> when the verdict has none, and a
  \<^verbatim>\<open>confidence\<close> entry, which is the \<^verbatim>\<open>confidence\<close> of the verdict, or \<^verbatim>\<open>MEDIUM\<close> when
  the verdict has none. The claim is a dictionary and the \<^verbatim>\<open>results\<close> of the retriever
  are a list.
\<close>

theorem verify_claim_defaults:
  assumes "py_get claim ''claim'' (JStr []) = Inr claim_text"
      and "py_get claim ''type'' (JStr ''other'') = Inr claim_type"
      and "py_get search_results ''results'' (JList []) = Inr (JList rs)"
      and "search_context search_results = Inr cx"
      and "openai_client (verification_request claim_text claim_type cx)
             = Content (Inr (JDict verdict))"
  shows "\<exists>kvs. fst (verify_claim claim search_results openai_client) = Inr (JDict kvs)
         \<and> map_of kvs ''status''
             = Some (case map_of verdict ''status'' of None \<Rightarrow> JStr ''UNKNOWN'' | Some s \<Rightarrow> s)
         \<and> map_of kvs ''confidence''
             = Some (case map_of verdict ''confidence'' of None \<Rightarrow> JStr ''MEDIUM'' | Some c \<Rightarrow> c)"
proof -
  from sources_of_list[OF assms(4,3)] obtain srcs where
    "sources_of search_results = Inr srcs" ..
  with assms have
    "fst (verify_claim_try claim search_results openai_client) =
       Inr (JDict [(''claim'', claim_text), (''type'', claim_type),
              (''status'', case map_of verdict ''status'' of None \<Rightarrow> JStr ''UNKNOWN'' | Some s \<Rightarrow> s),
              (''explanation'', case map_of verdict ''explanation'' of None \<Rightarrow> JStr [] | Some s \<Rightarrow> s),
              (''correct_info'', case map_of verdict ''correct_info'' of None \<Rightarrow> JNull | Some s \<Rightarrow> s),
              (''confidence'', case map_of verdict ''confidence'' of None \<Rightarrow> JStr ''MEDIUM'' | Some c \<Rightarrow> c),
              (''sources'', JList srcs)])"
    by (simp add: verify_claim_try_def verification_result_def Let_def)
  from verify_claim_return[OF this] this show ?thesis by simp
qed

theorem verify_claim_defaults_witness:
  "py_get gdp_claim ''claim'' (JStr []) = Inr (JStr ''GDP was 5 trillion in 2020'')
   \<and> py_get gdp_claim ''type'' (JStr ''other'') = Inr (JStr ''financial'')
   \<and> py_get no_evidence ''results'' (JList []) = Inr (JList [])
   \<and> search_context no_evidence = Inr []
   \<and> (\<exists>kvs. fst (verify_claim gdp_claim no_evidence (reply_with bare_verdict)) = Inr (JDict kvs)
         \<and> map_of kvs ''status'' = Some (JStr ''UNKNOWN'')
         \<and> map_of kvs ''confidence'' = Some (JStr ''MEDIUM''))"
  using verify_claim_defaults [of gdp_claim "JStr ''GDP was 5 trillion in 2020''"
      "JStr ''financial''" no_evidence "[]" "[]" "reply_with bare_verdict"
      "[(''explanation'', JStr ''close to the reported figure'')]"]
  by (simp add: gdp_claim_def no_evidence_def search_context_def reply_with_def
        bare_verdict_def)

text \<open>
  C10. Every result that \<open>verify_claim\<close> returns, from the body of the \<^verbatim>\<open>try\<close> or from
  either handler, carries in its \<^verbatim>\<open>claim\<close> and \<^verbatim>\<open>type\<close> entries the \<^verbatim>\<open>claim\<close> and
  \<^verbatim>\<open>type\<close> of the claim it was given, the empty string and \<^verbatim>\<open>other\<close> when the claim
  lacks them. A result is returned for every claim that \<^verbatim>\<open>main\<close> lets through to the
  verification.
\<close>

theorem verify_claim_keeps_claim:
  "(\<forall>r. fst (verify_claim claim search_results openai_client) = Inr r \<longrightarrow>
        py_get r ''claim'' JNull = py_get claim ''claim'' (JStr [])
      \<and> py_get r ''type'' JNull = py_get claim ''type'' (JStr ''other''))
   \<and> (\<forall>i pevs. claim_preview i claim = Inr pevs \<longrightarrow>
         (\<exists>r. fst (verify_claim claim search_results openai_client) = Inr r))"
  using verify_claim_carries_claim [of claim search_results openai_client]
    verify_claim_returns [of _ claim _ search_results openai_client]
  by blast

theorem verify_claim_keeps_claim_witness:
  "claim_preview 1 untyped_claim
     = Inr [StMarkdown (ClaimPreview 1 (JStr ''N/A'')), StCaption (ClaimType (JStr ''unknown''))]
   \<and> fst (verify_claim untyped_claim no_evidence (create_raises (ClientError ''rate limit'')))
       = Inr (JDict [(''claim'', JStr []), (''type'', JStr ''other''), (''status'', JStr ''ERROR''),
                     (''explanation'', JStr ''Error during verification: rate limit''),
                     (''correct_info'', JNull), (''confidence'', JStr ''LOW''),
                     (''sources'', JList [])])
   \<and> py_get (JDict [(''claim'', JStr []), (''type'', JStr ''other''), (''status'', JStr ''ERROR''),
                     (''explanation'', JStr ''Error during verification: rate limit''),
                     (''correct_info'', JNull), (''confidence'', JStr ''LOW''),
                     (''sources'', JList [])]) ''claim'' JNull
       = py_get untyped_claim ''claim'' (JStr [])
   \<and> py_get (JDict [(''claim'', JStr []), (''type'', JStr ''other''), (''status'', JStr ''ERROR''),
                     (''explanation'', JStr ''Error during verification: rate limit''),
                     (''correct_info'', JNull), (''confidence'', JStr ''LOW''),
                     (''sources'', JList [])]) ''type'' JNull
       = py_get untyped_claim ''type'' (JStr ''other'')"
  using verify_claim_keeps_claim [of untyped_claim no_evidence
      "create_raises (ClientError ''rate limit'')"]
  by (simp add: untyped_claim_def no_evidence_def claim_preview_def verify_claim_def
        verify_claim_try_def verify_claim_except_def search_context_def create_raises_def
        verification_request_def error_result_def)

section \<open>The orchestrator\<close>

text \<open>
  C8. When the extraction of the text of a document yields the empty text, the handling
  of the document stops before the extraction of claims: no request is sent to the
  extraction oracle (nor any other), and the run ends at \<^verbatim>\<open>st.stop()\<close> with no claims.
\<close>

theorem empty_text_halts:
  assumes "fst (extract_text_from_pdf uploaded_file) = []"
  shows "fst (main_document py_str uploaded_file extraction_client tavily_client
                openai_client button) = Stopped
       \<and> chat_requests (snd (main_document py_str uploaded_file extraction_client
                tavily_client openai_client button)) = []
       \<and> search_requests (snd (main_document py_str uploaded_file extraction_client
                tavily_client openai_client button)) = []"
  using assms
  by (auto simp: main_document_def extract_text_from_pdf_def chat_requests_append
        search_requests_append split: prod.splits pdf_file.splits sum.splits)

theorem empty_text_halts_witness:
  "fst (extract_text_from_pdf (Pages [ExtractText None, ExtractText (Some [])])) = []
   \<and> fst (main_document example_str (Pages [ExtractText None, ExtractText (Some [])])
             (reply_with (JList [gdp_claim])) (each_pass (search_raises (ClientError ''timeout'')))
             (each_pass (reply_with (JDict []))) True) = Stopped"
  using empty_text_halts [of "Pages [ExtractText None, ExtractText (Some [])]" example_str
      "reply_with (JList [gdp_claim])" "each_pass (search_raises (ClientError ''timeout''))"
      "each_pass (reply_with (JDict []))" True]
  by (simp add: extract_text_from_pdf_def)

subsection \<open>The verification loop\<close>

lemma claims_preview_Cons:
  assumes "fst (claims_preview i (claim # claims)) = Inr ()"
  shows "\<exists>evs. claim_preview i claim = Inr evs" and "fst (claims_preview (Suc i) claims) = Inr ()"
  using assms by (auto split: sum.splits prod.splits)

lemma verify_pass_returns:
  assumes "claim_preview i claim = Inr pevs"
  shows "\<exists>r. fst (verify_pass py_str tavily_client openai_client claim) = Inr r"
proof -
  from assms obtain kvs where c: "claim = JDict kvs" using claim_preview_dict by blast
  obtain sr evs where s: "search_web_for_claim py_str
      (case map_of kvs ''claim'' of None \<Rightarrow> JStr [] | Some v \<Rightarrow> v)
      (case map_of kvs ''type'' of None \<Rightarrow> JStr ''other'' | Some v \<Rightarrow> v) tavily_client = (sr, evs)"
    by (cases "search_web_for_claim py_str
      (case map_of kvs ''claim'' of None \<Rightarrow> JStr [] | Some v \<Rightarrow> v)
      (case map_of kvs ''type'' of None \<Rightarrow> JStr ''other'' | Some v \<Rightarrow> v) tavily_client")
  from verify_claim_returns[OF assms, of sr openai_client] obtain r where
    "fst (verify_claim claim sr openai_client) = Inr r" ..
  with c s show ?thesis
    by (auto simp: verify_pass_def split: prod.splits)
qed

lemma verify_pass_result:
  assumes "fst (verify_pass py_str tavily_client openai_client claim) = Inr r"
  shows "\<exists>search_results. fst (verify_claim claim search_results openai_client) = Inr r"
proof -
  from assms obtain claim_text claim_type sr evs1 evs2 where
    "verify_claim claim sr openai_client = (Inr r, evs2)"
    by (auto simp: verify_pass_def split: sum.splits prod.splits)
  then have "fst (verify_claim claim sr openai_client) = Inr r" by simp
  then show ?thesis ..
qed

lemma verify_loop_results:
  assumes "fst (claims_preview i claims) = Inr ()"
  shows "\<exists>rs. fst (verify_loop py_str tavily_client openai_client idx claims acc) = Inr (acc @ rs)
           \<and> length rs = length claims
           \<and> (\<forall>k<length claims.
                 fst (verify_pass py_str (tavily_client (idx + k)) (openai_client (idx + k))
                        (claims ! k)) = Inr (rs ! k))"
  using assms
proof (induction claims arbitrary: i idx acc)
  case Nil
  then show ?case by simp
next
  case (Cons claim claims)
  from claims_preview_Cons[OF Cons.prems] obtain evs where
    p: "claim_preview i claim = Inr evs" and ps: "fst (claims_preview (Suc i) claims) = Inr ()"
    by blast
  from verify_pass_returns[OF p] obtain r where
    r: "fst (verify_pass py_str (tavily_client idx) (openai_client idx) claim) = Inr r" ..
  from Cons.IH[OF ps, of "Suc idx" "acc @ [r]"] obtain rs where
    l: "fst (verify_loop py_str tavily_client openai_client (Suc idx) claims (acc @ [r]))
          = Inr ((acc @ [r]) @ rs)"
    and n: "length rs = length claims"
    and e: "\<forall>k<length claims.
              fst (verify_pass py_str (tavily_client (Suc idx + k)) (openai_client (Suc idx + k))
                     (claims ! k)) = Inr (rs ! k)"
    by blast
  have "fst (verify_loop py_str tavily_client openai_client idx (claim # claims) acc)
          = Inr (acc @ (r # rs))"
    using r l by (auto split: prod.splits sum.splits)
  moreover have "length (r # rs) = length (claim # claims)" using n by simp
  moreover have "fst (verify_pass py_str (tavily_client (idx + k)) (openai_client (idx + k))
                        ((claim # claims) ! k)) = Inr ((r # rs) ! k)"
    if "k < length (claim # claims)" for k
  proof (cases k)
    case 0
    with r show ?thesis by simp
  next
    case (Suc j)
    with that have "j < length claims" by simp
    with e Suc show ?thesis by simp
  qed
  ultimately show ?case by blast
qed

lemma search_web_for_claim_raises:
  assumes "tavily_client (search_request_of (py_str claim)) = SearchRaises e"
  shows "fst (search_web_for_claim py_str claim claim_type tavily_client)
           = JDict [(''results'', JList []), (''query'', claim)]"
  using assms by (simp add: search_web_for_claim_def Let_def)

lemma verify_pass_fst:
  assumes "py_get claim ''claim'' (JStr []) = Inr claim_text"
      and "py_get claim ''type'' (JStr ''other'') = Inr claim_type"
  shows "fst (verify_pass py_str tavily_client openai_client claim)
           = fst (verify_claim claim
                    (fst (search_web_for_claim py_str claim_text claim_type tavily_client))
                    openai_client)"
  using assms by (simp add: verify_pass_def split: prod.splits)

lemma verify_claim_call_fails:
  assumes "py_get claim ''claim'' (JStr []) = Inr claim_text"
      and "py_get claim ''type'' (JStr ''other'') = Inr claim_type"
      and "search_context search_results = Inr cx"
      and "openai_client (verification_request claim_text claim_type cx) = CreateRaises e
         \<or> openai_client (verification_request claim_text claim_type cx) = Content (Inl e)"
      and "fst (verify_claim claim search_results openai_client) = Inr r"
  shows "py_get r ''status'' JNull = Inr (JStr ''ERROR'')"
proof -
  have t: "fst (verify_claim_try claim search_results openai_client) = Inl e"
    using assms(1-4) by (auto simp: verify_claim_try_def Let_def)
  from verify_claim_raise[OF t] assms(5) have "fst (verify_claim_except claim e) = Inr r"
    by simp
  from verify_claim_except_Inr[OF this] show ?thesis by (auto simp: error_result_def)
qed

lemma verify_claim_no_evidence:
  assumes "py_get claim ''claim'' (JStr []) = Inr claim_text"
      and "py_get claim ''type'' (JStr ''other'') = Inr claim_type"
      and "openai_client (verification_request claim_text claim_type [])
             = Content (Inr (JDict verdict))"
      and "fst (verify_claim claim (JDict [(''results'', JList []), (''query'', q)])
                  openai_client) = Inr r"
  shows "py_get r ''status'' JNull
           = Inr (case map_of verdict ''status'' of None \<Rightarrow> JStr ''UNKNOWN'' | Some s \<Rightarrow> s)"
    and "py_get r ''sources'' JNull = Inr (JList [])"
proof -
  let ?sr = "JDict [(''results'', JList []), (''query'', q)]"
  have "fst (verify_claim_try claim ?sr openai_client) =
       Inr (JDict [(''claim'', claim_text), (''type'', claim_type),
              (''status'', case map_of verdict ''status'' of None \<Rightarrow> JStr ''UNKNOWN'' | Some s \<Rightarrow> s),
              (''explanation'', case map_of verdict ''explanation'' of None \<Rightarrow> JStr [] | Some s \<Rightarrow> s),
              (''correct_info'', case map_of verdict ''correct_info'' of None \<Rightarrow> JNull | Some s \<Rightarrow> s),
              (''confidence'', case map_of verdict ''confidence'' of None \<Rightarrow> JStr ''MEDIUM'' | Some c \<Rightarrow> c),
              (''sources'', JList [])])"
    using assms(1-3)
    by (simp add: verify_claim_try_def verification_result_def search_context_def
          sources_of_def Let_def)
  from verify_claim_return[OF this] this assms(4)
  have "r = JDict [(''claim'', claim_text), (''type'', claim_type),
              (''status'', case map_of verdict ''status'' of None \<Rightarrow> JStr ''UNKNOWN'' | Some s \<Rightarrow> s),
              (''explanation'', case map_of verdict ''explanation'' of None \<Rightarrow> JStr [] | Some s \<Rightarrow> s),
              (''correct_info'', case map_of verdict ''correct_info'' of None \<Rightarrow> JNull | Some s \<Rightarrow> s),
              (''confidence'', case map_of verdict ''confidence'' of None \<Rightarrow> JStr ''MEDIUM'' | Some c \<Rightarrow> c),
              (''sources'', JList [])]"
    by simp
  then show "py_get r ''status'' JNull
           = Inr (case map_of verdict ''status'' of None \<Rightarrow> JStr ''UNKNOWN'' | Some s \<Rightarrow> s)"
    and "py_get r ''sources'' JNull = Inr (JList [])" by simp_all
qed

text \<open>
  C2, as the program has it. For the claims that \<^verbatim>\<open>main\<close> lets through to the loop (the
  preview of lines 292 to 294 went through), the loop ends with exactly one result per
  claim, in the order of the claims: the result at position \<open>k\<close> is the one \<open>verify_pass\<close>
  returns for the claim at position \<open>k\<close> and carries its \<^verbatim>\<open>claim\<close> and \<^verbatim>\<open>type\<close>. When the
  call of the verification oracle made for a claim fails (the request built from that
  claim and its evidence raises, or its content does not decode), the result of that
  claim has status \<^verbatim>\<open>ERROR\<close>. When the search for a claim raises, the result is the one
  \<open>verify_claim\<close> returns on the empty list of results: the claim is judged on no
  evidence, and when the oracle answers that request with an object, the result has the
  status of that verdict (\<^verbatim>\<open>UNKNOWN\<close> when it has none) and no sources, not \<^verbatim>\<open>ERROR\<close>
  for the failed search.
\<close>

theorem verify_loop_one_result_per_claim:
  assumes "fst (claims_preview i claims) = Inr ()"
  shows "\<exists>results.
           fst (verify_loop py_str tavily_client openai_client idx claims []) = Inr results
         \<and> length results = length claims
         \<and> (\<forall>k<length claims.
               fst (verify_pass py_str (tavily_client (idx + k)) (openai_client (idx + k))
                      (claims ! k)) = Inr (results ! k)
             \<and> py_get (results ! k) ''claim'' JNull = py_get (claims ! k) ''claim'' (JStr [])
             \<and> py_get (results ! k) ''type'' JNull = py_get (claims ! k) ''type'' (JStr ''other'')
             \<and> (\<forall>claim_text claim_type cx e.
                    py_get (claims ! k) ''claim'' (JStr []) = Inr claim_text
                  \<and> py_get (claims ! k) ''type'' (JStr ''other'') = Inr claim_type
                  \<and> search_context
                        (fst (search_web_for_claim py_str claim_text claim_type
                                (tavily_client (idx + k)))) = Inr cx
                  \<and> (openai_client (idx + k) (verification_request claim_text claim_type cx)
                         = CreateRaises e
                     \<or> openai_client (idx + k) (verification_request claim_text claim_type cx)
                         = Content (Inl e))
                  \<longrightarrow> py_get (results ! k) ''status'' JNull = Inr (JStr ''ERROR''))
             \<and> (\<forall>claim_text claim_type e.
                    py_get (claims ! k) ''claim'' (JStr []) = Inr claim_text
                  \<and> py_get (claims ! k) ''type'' (JStr ''other'') = Inr claim_type
                  \<and> tavily_client (idx + k) (search_request_of (py_str claim_text))
                       = SearchRaises e
                  \<longrightarrow> fst (verify_claim (claims ! k)
                              (JDict [(''results'', JList []), (''query'', claim_text)])
                              (openai_client (idx + k))) = Inr (results ! k)
                     \<and> (\<forall>verdict.
                            openai_client (idx + k)
                              (verification_request claim_text claim_type [])
                              = Content (Inr (JDict verdict))
                          \<longrightarrow> py_get (results ! k) ''status'' JNull
                                = Inr (case map_of verdict ''status'' of
                                         None \<Rightarrow> JStr ''UNKNOWN'' | Some s \<Rightarrow> s)
                              \<and> py_get (results ! k) ''sources'' JNull = Inr (JList []))))"
proof -
  from verify_loop_results[OF assms, of py_str tavily_client openai_client idx "[]"]
  obtain rs where
    l: "fst (verify_loop py_str tavily_client openai_client idx claims []) = Inr rs"
    and n: "length rs = length claims"
    and e: "\<forall>k<length claims.
              fst (verify_pass py_str (tavily_client (idx + k)) (openai_client (idx + k))
                     (claims ! k)) = Inr (rs ! k)"
    by auto
  have "fst (verify_pass py_str (tavily_client (idx + k)) (openai_client (idx + k))
                      (claims ! k)) = Inr (rs ! k)
      \<and> py_get (rs ! k) ''claim'' JNull = py_get (claims ! k) ''claim'' (JStr [])
      \<and> py_get (rs ! k) ''type'' JNull = py_get (claims ! k) ''type'' (JStr ''other'')
      \<and> (\<forall>claim_text claim_type cx e.
                    py_get (claims ! k) ''claim'' (JStr []) = Inr claim_text
                  \<and> py_get (claims ! k) ''type'' (JStr ''other'') = Inr claim_type
                  \<and> search_context
                        (fst (search_web_for_claim py_str claim_text claim_type
                                (tavily_client (idx + k)))) = Inr cx
                  \<and> (openai_client (idx + k) (verification_request claim_text claim_type cx)
                         = CreateRaises e
                     \<or> openai_client (idx + k) (verification_request claim_text claim_type cx)
                         = Content (Inl e))
                  \<longrightarrow> py_get (rs ! k) ''status'' JNull = Inr (JStr ''ERROR''))
      \<and> (\<forall>claim_text claim_type e.
                    py_get (claims ! k) ''claim'' (JStr []) = Inr claim_text
                  \<and> py_get (claims ! k) ''type'' (JStr ''other'') = Inr claim_type
                  \<and> tavily_client (idx + k) (search_request_of (py_str claim_text))
                       = SearchRaises e
                  \<longrightarrow> fst (verify_claim (claims ! k)
                              (JDict [(''results'', JList []), (''query'', claim_text)])
                              (openai_client (idx + k))) = Inr (rs ! k)
                     \<and> (\<forall>verdict.
                            openai_client (idx + k)
                              (verification_request claim_text claim_type [])
                              = Content (Inr (JDict verdict))
                          \<longrightarrow> py_get (rs ! k) ''status'' JNull
                                = Inr (case map_of verdict ''status'' of
                                         None \<Rightarrow> JStr ''UNKNOWN'' | Some s \<Rightarrow> s)
                              \<and> py_get (rs ! k) ''sources'' JNull = Inr (JList [])))"
    if "k < length claims" for k
  proof -
    let ?c = "claims ! k" and ?tc = "tavily_client (idx + k)" and ?oc = "openai_client (idx + k)"
    from e that have p: "fst (verify_pass py_str ?tc ?oc ?c) = Inr (rs ! k)" by simp
    from verify_pass_result[OF p] obtain sr where
      v: "fst (verify_claim ?c sr ?oc) = Inr (rs ! k)" ..
    note carried = verify_claim_carries_claim[OF v]
    have failing: "py_get (rs ! k) ''status'' JNull = Inr (JStr ''ERROR'')"
      if "py_get ?c ''claim'' (JStr []) = Inr claim_text"
        and "py_get ?c ''type'' (JStr ''other'') = Inr claim_type"
        and "search_context (fst (search_web_for_claim py_str claim_text claim_type ?tc)) = Inr cx"
        and "?oc (verification_request claim_text claim_type cx) = CreateRaises e
           \<or> ?oc (verification_request claim_text claim_type cx) = Content (Inl e)"
      for claim_text claim_type cx e
    proof -
      from p verify_pass_fst[OF that(1,2), of py_str ?tc ?oc]
      have "fst (verify_claim ?c (fst (search_web_for_claim py_str claim_text claim_type ?tc)) ?oc)
              = Inr (rs ! k)" by simp
      from verify_claim_call_fails[OF that(1,2,3,4) this] show ?thesis .
    qed
    have nosearch: "fst (verify_claim ?c (JDict [(''results'', JList []), (''query'', claim_text)]) ?oc)
             = Inr (rs ! k)
          \<and> (\<forall>verdict. ?oc (verification_request claim_text claim_type [])
                           = Content (Inr (JDict verdict))
                 \<longrightarrow> py_get (rs ! k) ''status'' JNull
                       = Inr (case map_of verdict ''status'' of
                                None \<Rightarrow> JStr ''UNKNOWN'' | Some s \<Rightarrow> s)
                     \<and> py_get (rs ! k) ''sources'' JNull = Inr (JList []))"
      if "py_get ?c ''claim'' (JStr []) = Inr claim_text"
        and "py_get ?c ''type'' (JStr ''other'') = Inr claim_type"
        and "?tc (search_request_of (py_str claim_text)) = SearchRaises e"
      for claim_text claim_type e
    proof -
      from p verify_pass_fst[OF that(1,2), of py_str ?tc ?oc]
        search_web_for_claim_raises[where tavily_client = "?tc" and py_str = py_str
          and claim = claim_text and claim_type = claim_type, OF that(3)]
      have r: "fst (verify_claim ?c (JDict [(''results'', JList []), (''query'', claim_text)]) ?oc)
              = Inr (rs ! k)" by simp
      with verify_claim_no_evidence[OF that(1,2) _ r] show ?thesis by blast
    qed
    from p carried failing nosearch show ?thesis by blast
  qed
  with l n show ?thesis by blast
qed

theorem verify_loop_one_result_per_claim_witness:
  "fst (claims_preview 1 [gdp_claim, untyped_claim]) = Inr ()
   \<and> each_pass (search_raises (ClientError ''timeout'')) (0 + 0)
         (search_request_of (example_str (JStr ''GDP was 5 trillion in 2020'')))
       = SearchRaises (ClientError ''timeout'')
   \<and> only_first_answers (0 + 0)
         (verification_request (JStr ''GDP was 5 trillion in 2020'') (JStr ''financial'') [])
       = Content (Inr verified_verdict)
   \<and> search_context
         (fst (search_web_for_claim example_str (JStr []) (JStr ''other'')
                 (each_pass (search_raises (ClientError ''timeout'')) (0 + 1)))) = Inr []
   \<and> only_first_answers (0 + 1) (verification_request (JStr []) (JStr ''other'') [])
       = CreateRaises (ClientError ''rate limit'')
   \<and> fst (verify_loop example_str (each_pass (search_raises (ClientError ''timeout'')))
            only_first_answers 0 [gdp_claim, untyped_claim] [])
       = Inr [JDict [(''claim'', JStr ''GDP was 5 trillion in 2020''),
                     (''type'', JStr ''financial''), (''status'', JStr ''VERIFIED''),
                     (''explanation'', JStr ''matches''), (''correct_info'', JNull),
                     (''confidence'', JStr ''HIGH''), (''sources'', JList [])],
              JDict [(''claim'', JStr []), (''type'', JStr ''other''), (''status'', JStr ''ERROR''),
                     (''explanation'', JStr ''Error during verification: rate limit''),
                     (''correct_info'', JNull), (''confidence'', JStr ''LOW''),
                     (''sources'', JList [])]]
   \<and> fst (verify_loop example_str (each_pass (search_responds four_results)) only_first_answers
            0 [gdp_claim, untyped_claim] [])
       = Inr [JDict [(''claim'', JStr ''GDP was 5 trillion in 2020''),
                     (''type'', JStr ''financial''), (''status'', JStr ''VERIFIED''),
                     (''explanation'', JStr ''matches''), (''correct_info'', JNull),
                     (''confidence'', JStr ''HIGH''),
                     (''sources'', JList [JStr ''https://a.example'', JStr ''https://c.example''])],
              JDict [(''claim'', JStr []), (''type'', JStr ''other''), (''status'', JStr ''ERROR''),
                     (''explanation'', JStr ''Error during verification: rate limit''),
                     (''correct_info'', JNull), (''confidence'', JStr ''LOW''),
                     (''sources'', JList [])]]"
  using verify_loop_one_result_per_claim [of 1 "[gdp_claim, untyped_claim]" example_str
      "each_pass (search_raises (ClientError ''timeout''))" only_first_answers 0]
    verify_loop_one_result_per_claim [of 1 "[gdp_claim, untyped_claim]" example_str
      "each_pass (search_responds four_results)" only_first_answers 0]
  by (simp add: gdp_claim_def untyped_claim_def claim_preview_def only_first_answers_def
        create_raises_def reply_with_def verified_verdict_def each_pass_def
        search_responds_def search_raises_def four_results_def verify_pass_def
        search_web_for_claim_def search_request_of_def verify_claim_def verify_claim_try_def
        verify_claim_except_def search_context_def source_block_def verification_result_def
        sources_of_def error_result_def Let_def)

text \<open>
  C2 as stated fails: the search for the one claim raises, the verification oracle then
  judges the claim on no evidence, and the result has the status the oracle gave, not
  \<^verbatim>\<open>ERROR\<close>.
\<close>

theorem search_failure_without_error_status:
  "search_raises (ClientError ''timeout'') (search_request_of ''GDP was 5 trillion in 2020'')
     = SearchRaises (ClientError ''timeout'')
   \<and> fst (verify_loop example_str (each_pass (search_raises (ClientError ''timeout'')))
            (each_pass (reply_with verified_verdict)) 0 [gdp_claim] [])
       = Inr [JDict [(''claim'', JStr ''GDP was 5 trillion in 2020''),
                     (''type'', JStr ''financial''), (''status'', JStr ''VERIFIED''),
                     (''explanation'', JStr ''matches''), (''correct_info'', JNull),
                     (''confidence'', JStr ''HIGH''), (''sources'', JList [])]]"
  by (simp add: search_raises_def each_pass_def reply_with_def verified_verdict_def
        gdp_claim_def verify_pass_def search_web_for_claim_def search_request_of_def
        verify_claim_def verify_claim_try_def search_context_def verification_result_def
        sources_of_def Let_def)

subsection \<open>The summary\<close>

lemma py_key_JStr: "py_key status = Inr k \<Longrightarrow> (k = JStr s) = (status = JStr s)"
  by (cases status) (auto split: if_splits)

lemma count_statuses_counts:
  assumes "\<forall>r\<in>set results. hashable_status r"
  shows "\<exists>m'. count_statuses m results = Inr m'
           \<and> (\<forall>s. counts_get m' s = counts_get m s + count_status s results)"
  using assms
proof (induction results arbitrary: m)
  case Nil
  then show ?case by (simp add: count_status_def)
next
  case (Cons r results)
  from Cons.prems obtain status k where
    st: "py_get r ''status'' (JStr ''UNKNOWN'') = Inr status" and k: "py_key status = Inr k"
    by (auto simp: hashable_status_def split: sum.splits)
  let ?m = "m(k \<mapsto> Suc (case m k of None \<Rightarrow> 0 | Some n \<Rightarrow> n))"
  from Cons.prems have "\<forall>r\<in>set results. hashable_status r" by simp
  from Cons.IH[OF this, of ?m] obtain m' where
    m': "count_statuses ?m results = Inr m'"
    and c: "\<forall>s. counts_get m' s = counts_get ?m s + count_status s results"
    by blast
  have "counts_get ?m s + count_status s results = counts_get m s + count_status s (r # results)"
    for s
    using st py_key_JStr[OF k, of s]
    by (auto simp: counts_get_def count_status_def has_status_def split: option.splits)
  with m' c st k show ?case by simp
qed

lemma count_status_three:
  "count_status ''VERIFIED'' results + count_status ''INACCURATE'' results
     + count_status ''FALSE'' results
   = length (filter (\<lambda>r. has_status ''VERIFIED'' r \<or> has_status ''INACCURATE'' r
                          \<or> has_status ''FALSE'' r) results)"
  by (induction results) (auto simp: count_status_def has_status_def)

lemma length_filter_all: "(length (filter P xs) = length xs) = (\<forall>x\<in>set xs. P x)"
  by (metis filter_True length_filter_less less_irrefl_nat set_filter mem_Collect_eq
        filter_id_conv)

lemma percent_parts:
  fixes a b c n :: nat
  assumes "0 < n" and "a + b + c \<le> n"
  shows "(of_nat a :: rat) / of_nat n * 100 + of_nat b / of_nat n * 100
           + of_nat c / of_nat n * 100 = of_nat (a + b + c) / of_nat n * 100"
    and "(of_nat (a + b + c) :: rat) / of_nat n * 100 \<le> 100"
    and "((of_nat (a + b + c) :: rat) / of_nat n * 100 = 100) = (a + b + c = n)"
proof -
  define t :: rat where "t = of_nat (a + b + c)"
  define d :: rat where "d = of_nat n"
  have d: "0 < d" using assms(1) by (simp add: d_def)
  show "(of_nat a :: rat) / of_nat n * 100 + of_nat b / of_nat n * 100
           + of_nat c / of_nat n * 100 = of_nat (a + b + c) / of_nat n * 100"
    by (simp add: add_divide_distrib distrib_right)
  have "t \<le> d" unfolding t_def d_def using assms(2) by (simp only: of_nat_le_iff)
  then have "t / d \<le> 1" using d by (simp add: divide_le_eq)
  then have "t / d * 100 \<le> 1 * 100" by (rule mult_right_mono) simp
  then show "(of_nat (a + b + c) :: rat) / of_nat n * 100 \<le> 100"
    by (simp add: t_def d_def)
  have "(q * 100 = 100) = (q = 1)" for q :: rat by auto
  then have "(t / d * 100 = 100) = (t / d = 1)" .
  also have "\<dots> = (t = d)" using d by (auto simp: divide_eq_1_iff)
  also have "\<dots> = (a + b + c = n)" unfolding t_def d_def by (simp only: of_nat_eq_iff)
  finally show "((of_nat (a + b + c) :: rat) / of_nat n * 100 = 100) = (a + b + c = n)"
    by (simp only: t_def d_def)
qed

text \<open>
  C1, as the program has it. For a non-empty list of results whose statuses can be keys
  of \<^verbatim>\<open>status_counts\<close>, the summary is computed without a division by zero. It shows
  the number of results and, for \<^verbatim>\<open>VERIFIED\<close>, \<^verbatim>\<open>INACCURATE\<close> and \<^verbatim>\<open>FALSE\<close> only, the
  number of results with that status and its percentage of the total. The three
  percentages sum to at most 100, and to 100 exactly when every result has one of these
  three statuses: the results with status \<^verbatim>\<open>ERROR\<close>, \<^verbatim>\<open>UNKNOWN\<close> or any other are counted
  in the total and shown in no percentage. (The percentages are the exact quotients; the
  program prints each with one decimal.)
\<close>

theorem summary_statistics_percentages:
  assumes "results \<noteq> []" and "\<forall>r\<in>set results. hashable_status r"
  shows "\<exists>s. summary_statistics results = Inr s
     \<and> total_claims s = length results
     \<and> verified s = count_status ''VERIFIED'' results
     \<and> inaccurate s = count_status ''INACCURATE'' results
     \<and> false_claims s = count_status ''FALSE'' results
     \<and> verified_percent s = of_nat (verified s) / of_nat (length results) * 100
     \<and> inaccurate_percent s = of_nat (inaccurate s) / of_nat (length results) * 100
     \<and> false_percent s = of_nat (false_claims s) / of_nat (length results) * 100
     \<and> percent_sum s
         = of_nat (verified s + inaccurate s + false_claims s) / of_nat (length results) * 100
     \<and> percent_sum s \<le> 100
     \<and> (percent_sum s = 100 \<longleftrightarrow>
          (\<forall>r\<in>set results. has_status ''VERIFIED'' r \<or> has_status ''INACCURATE'' r
                             \<or> has_status ''FALSE'' r))"
proof -
  define n where "n = length results"
  define v where "v = count_status ''VERIFIED'' results"
  define i where "i = count_status ''INACCURATE'' results"
  define f where "f = count_status ''FALSE'' results"
  define s where "s = \<lparr>total_claims = n,
             verified = v, verified_percent = of_nat v / of_nat n * 100,
             inaccurate = i, inaccurate_percent = of_nat i / of_nat n * 100,
             false_claims = f, false_percent = of_nat f / of_nat n * 100\<rparr>"
  from assms(1) have n: "0 < n" by (simp add: n_def)
  from count_statuses_counts[OF assms(2), of Map.empty] obtain m' where
    m': "count_statuses Map.empty results = Inr m'"
    and c: "\<forall>s. counts_get m' s = count_status s results"
    by (auto simp: counts_get_def)
  have res: "summary_statistics results = Inr s"
    using m' c n by (simp add: summary_statistics_def percent_def s_def n_def v_def i_def f_def)
  have three: "v + i + f
     = length (filter (\<lambda>r. has_status ''VERIFIED'' r \<or> has_status ''INACCURATE'' r
                          \<or> has_status ''FALSE'' r) results)"
    unfolding v_def i_def f_def by (rule count_status_three)
  then have le: "v + i + f \<le> n" by (simp add: n_def)
  have all: "(v + i + f = n) = (\<forall>r\<in>set results. has_status ''VERIFIED'' r
      \<or> has_status ''INACCURATE'' r \<or> has_status ''FALSE'' r)"
    unfolding three n_def by (rule length_filter_all)
  have sum: "percent_sum s = of_nat (v + i + f) / of_nat n * 100"
    unfolding percent_sum_def s_def using percent_parts(1)[OF n le] by simp
  have "total_claims s = length results" "verified s = count_status ''VERIFIED'' results"
    "inaccurate s = count_status ''INACCURATE'' results"
    "false_claims s = count_status ''FALSE'' results"
    "verified_percent s = of_nat (verified s) / of_nat (length results) * 100"
    "inaccurate_percent s = of_nat (inaccurate s) / of_nat (length results) * 100"
    "false_percent s = of_nat (false_claims s) / of_nat (length results) * 100"
    by (simp_all add: s_def n_def v_def i_def f_def)
  moreover have "percent_sum s
         = of_nat (verified s + inaccurate s + false_claims s) / of_nat (length results) * 100"
    using sum by (simp add: s_def n_def)
  moreover have "percent_sum s \<le> 100"
    unfolding sum by (rule percent_parts(2)[OF n le])
  moreover have "(percent_sum s = 100) = (\<forall>r\<in>set results. has_status ''VERIFIED'' r
      \<or> has_status ''INACCURATE'' r \<or> has_status ''FALSE'' r)"
    unfolding sum percent_parts(3)[OF n le] by (rule all)
  ultimately show ?thesis using res by blast
qed

theorem summary_statistics_percentages_witness:
  "mixed_results \<noteq> []
   \<and> hashable_status (mixed_results ! 0) \<and> hashable_status (mixed_results ! 1)
   \<and> summary_statistics mixed_results
       = Inr \<lparr>total_claims = 2, verified = 1, verified_percent = 50,
              inaccurate = 0, inaccurate_percent = 0, false_claims = 0, false_percent = 0\<rparr>
   \<and> percent_sum \<lparr>total_claims = 2, verified = 1, verified_percent = 50,
              inaccurate = 0, inaccurate_percent = 0, false_claims = 0, false_percent = 0\<rparr>
       = 50"
  using summary_statistics_percentages [of mixed_results]
  by (simp add: mixed_results_def error_result_def hashable_status_def summary_statistics_def
        percent_def counts_get_def percent_sum_def)

text \<open>
  C1 as stated fails: for one result of status \<^verbatim>\<open>ERROR\<close> the three percentages shown are
  all 0, and sum to 0, not to 100.
\<close>

theorem error_results_sum_to_zero:
  "summary_statistics error_only
     = Inr \<lparr>total_claims = 1, verified = 0, verified_percent = 0,
            inaccurate = 0, inaccurate_percent = 0, false_claims = 0, false_percent = 0\<rparr>
   \<and> percent_sum \<lparr>total_claims = 1, verified = 0, verified_percent = 0,
            inaccurate = 0, inaccurate_percent = 0, false_claims = 0, false_percent = 0\<rparr>
       = 0"
  by (simp add: error_only_def error_result_def summary_statistics_def percent_def
        counts_get_def percent_sum_def)

end
